theory Spec2Isabelle
  imports Complex_Main
begin

section \<open>Data model of the game server (src/pages/api/socket.ts)\<close>

text \<open>
  Strings are lists of characters, a character being a code unit below 256 (Latin-1);
  strings with other code units are outside the model. Numbers (scores, indices,
  rounds, seconds) are integers. A socket id, a room id and a player id are strings, as
  in the source.
\<close>

datatype status = LOBBY | SELECTING | DRAWING | ENDED

text \<open>
  \<open>interface Player\<close>. The field \<open>id\<close> is called \<open>pid\<close> here, since \<open>id\<close> is the identity
  function of HOL. \<open>disconnectTimeout\<close> records whether a removal timeout is pending.
\<close>

record Player =
  pid :: string
  name :: string
  avatar :: string
  score :: int
  guessed :: bool
  disconnected :: bool
  disconnectTimeout :: bool

text \<open>
  The interval stored in \<open>game.timer\<close>: which callback is running, if any.
  \<open>clearInterval\<close> is the assignment of \<open>None\<close>.
\<close>

datatype timer_kind = SelectionTimer | RoundTimer

record Game =
  roomId :: string
  status :: status
  players :: "Player list"
  drawerIndex :: int
  currentWord :: string
  wordOptions :: "string list"
  maxRounds :: int
  currentRound :: int
  drawTime :: int
  timeLeft :: int
  timer :: "timer_kind option"
  hostId :: string

subsection \<open>JavaScript helpers\<close>

text \<open>\<open>xs[i]\<close> for a number \<open>i\<close>: \<open>undefined\<close> (here \<open>None\<close>) outside the array.\<close>

definition elemAt :: "'a list \<Rightarrow> int \<Rightarrow> 'a option" where
  "elemAt xs i = (if 0 \<le> i \<and> i < int (length xs) then Some (xs ! nat i) else None)"

text \<open>\<open>Array.prototype.findIndex\<close>: the first index whose element satisfies \<open>P\<close>, or \<open>-1\<close>.\<close>

fun findIndex :: "('a \<Rightarrow> bool) \<Rightarrow> 'a list \<Rightarrow> int" where
  "findIndex P [] = - 1"
| "findIndex P (x # xs) =
     (if P x then 0 else (let i = findIndex P xs in if i = - 1 then - 1 else i + 1))"

text \<open>
  The regular expression \<open>/./g\<close> matches every character but a line terminator
  (line feed and carriage return among 8-bit characters), and
  \<open>word.replace(/./g, '_ ')\<close> puts the two characters underscore, space in the place of
  each match.
\<close>

definition lineTerminator :: "char \<Rightarrow> bool" where
  "lineTerminator c = (c = CHR 0x0A \<or> c = CHR 0x0D)"

definition maskWord :: "string \<Rightarrow> string" where
  "maskWord w = concat (map (\<lambda>c. if lineTerminator c then [c] else ''_ '') w)"

subsection \<open>getPublicState\<close>

text \<open>\<open>game.players[game.drawerIndex]?.id\<close>\<close>

definition drawerId :: "Game \<Rightarrow> string option" where
  "drawerId game = map_option pid (elemAt (players game) (drawerIndex game))"

text \<open>\<open>game.players.find(p => p.id === playerId)?.guessed\<close>, read as a condition.\<close>

definition hasGuessed :: "Game \<Rightarrow> string \<Rightarrow> bool" where
  "hasGuessed game playerId =
     (case find (\<lambda>p. pid p = playerId) (players game) of
        None \<Rightarrow> False
      | Some p \<Rightarrow> guessed p)"

text \<open>
  The view of the game sent to \<open>playerId\<close>: a copy of the game with the word masked, the
  options hidden and no timer.
\<close>

definition getPublicState :: "Game \<Rightarrow> string \<Rightarrow> Game" where
  "getPublicState game playerId =
     game\<lparr>currentWord :=
            (if status game = DRAWING \<and> Some playerId \<noteq> drawerId game
                \<and> \<not> hasGuessed game playerId
             then maskWord (currentWord game)
             else currentWord game),
          wordOptions :=
            (if status game = SELECTING \<and> Some playerId \<noteq> drawerId game
             then []
             else wordOptions game),
          timer := None\<rparr>"

subsection \<open>Messages sent by the server\<close>

text \<open>
  The texts of the \<open>system-message\<close> events, one constructor for each template of the
  source (without the emoji that some of them end or begin with):
  \<^item> \<open>NeedPlayers\<close>: "Need at least 2 players!"
  \<^item> \<open>WelcomeBack\<close>: "Welcome back! You reconnected."
  \<^item> \<open>DrawerSelected\<close>: "Drawer has selected a word!"
  \<^item> \<open>EveryoneLeft\<close>: "Everyone left! You win!"
  \<^item> \<open>NowHost n\<close>: "n is now the Host!"
  \<^item> \<open>DrawerDisconnected\<close>: "Drawer disconnected! Skipping turn..."
  \<^item> \<open>EveryoneGuessed\<close>: "Everyone guessed it!"
  \<^item> \<open>PlayerLeft n\<close>: "n left."
  \<^item> \<open>GuessedWord u\<close>: "u guessed the word!"
  \<^item> \<open>YouGuessed k\<close>: "You guessed the word! (+k)"
\<close>

datatype notice =
    NeedPlayers
  | WelcomeBack
  | DrawerSelected
  | EveryoneLeft
  | NowHost string
  | DrawerDisconnected
  | EveryoneGuessed
  | PlayerLeft string
  | GuessedWord string
  | YouGuessed int

text \<open>The payload \<open>{roomId, user, text}\<close> of a \<open>chat-message\<close> event.\<close>

record ChatData =
  chatRoomId :: string
  chatUser :: string
  chatText :: string

text \<open>
  The canvas events that carry a stroke or a step of the history: \<open>draw\<close>, \<open>fill\<close>,
  \<open>undo\<close>, \<open>redo\<close>, \<open>end-draw\<close>. What \<open>draw\<close> and \<open>fill\<close> carry besides the room id is
  not modelled.
\<close>

datatype stroke = Draw | Fill | Undo | Redo | EndDraw

text \<open>An event with its payload.\<close>

datatype payload =
    GameUpdate Game
  | SystemMessage notice
  | ChatMessage ChatData
  | JoinError
  | GameEnded "Player list"
  | Clear
  | Stroke stroke

text \<open>
  Where an event is sent:
  \<^item> \<open>IoTo r\<close> is \<open>io.to(r).emit\<close>: every connection in the room named \<open>r\<close>;
  \<^item> \<open>SocketTo s r\<close> is \<open>socket.to(r).emit\<close> on the connection \<open>s\<close>: the room \<open>r\<close>
    without \<open>s\<close>;
  \<^item> \<open>SocketEmit s\<close> is \<open>socket.emit\<close> on the connection \<open>s\<close>: that connection alone.
\<close>

datatype target = IoTo string | SocketTo string string | SocketEmit string

type_synonym emit = "target \<times> payload"

text \<open>
  The server's state: the registry \<open>games\<close> and, for the socket layer, the pairs
  (connection, room) that \<open>socket.join\<close> has added.
\<close>

record Server =
  games :: "string \<rightharpoonup> Game"
  joined :: "(string \<times> string) list"

text \<open>
  The socket layer puts every connection in the room named by its own id; the other
  memberships come from \<open>socket.join\<close>.
\<close>

definition inRoom :: "(string \<times> string) list \<Rightarrow> string \<Rightarrow> string \<Rightarrow> bool" where
  "inRoom js sid room = (sid = room \<or> (sid, room) \<in> set js)"

fun receives :: "(string \<times> string) list \<Rightarrow> target \<Rightarrow> string \<Rightarrow> bool" where
  "receives js (IoTo room) c = inRoom js c room"
| "receives js (SocketTo sender room) c = (c \<noteq> sender \<and> inRoom js c room)"
| "receives js (SocketEmit sender) c = (c = sender)"

text \<open>
  \<open>game.players.forEach(p => io.to(p.id).emit('game-update', getPublicState(game, p.id)))\<close>
\<close>

definition broadcastState :: "Game \<Rightarrow> emit list" where
  "broadcastState game =
     map (\<lambda>p. (IoTo (pid p), GameUpdate (getPublicState game (pid p)))) (players game)"

definition putGame :: "string \<Rightarrow> Game \<Rightarrow> Server \<Rightarrow> Server" where
  "putGame room game s = s\<lparr>games := (games s)(room \<mapsto> game)\<rparr>"

subsection \<open>The registry as a JavaScript object\<close>

text \<open>
  \<open>games\<close> is a plain object, \<open>{}\<close> at the start. So \<open>games[roomId]\<close> is the game stored
  under \<open>roomId\<close>; or, when nothing is stored there and \<open>roomId\<close> is the name of a property
  of \<open>Object.prototype\<close>, the inherited value, which is truthy, is no game and has no
  \<open>players\<close>, \<open>status\<close> or \<open>timer\<close>; or else \<open>undefined\<close>.
\<close>

definition inheritedKey :: "string \<Rightarrow> bool" where
  "inheritedKey k =
     (k \<in> set [''constructor'', ''__proto__'', ''hasOwnProperty'', ''isPrototypeOf'',
               ''propertyIsEnumerable'', ''toLocaleString'', ''toString'', ''valueOf'',
               ''__defineGetter__'', ''__defineSetter__'', ''__lookupGetter__'',
               ''__lookupSetter__''])"

datatype entry = NoEntry | InheritedEntry | GameEntry Game

definition lookupGame :: "Server \<Rightarrow> string \<Rightarrow> entry" where
  "lookupGame s room =
     (case games s room of
        Some game \<Rightarrow> GameEntry game
      | None \<Rightarrow> if inheritedKey room then InheritedEntry else NoEntry)"

text \<open>
  What a handler does: \<open>Inr (s, es)\<close> when it returns, with the new state and the events
  sent; \<open>Inl (e, s, es)\<close> when it throws \<open>e\<close>, with the state and the events sent at the
  throw. The only exception is the TypeError of reading a property of \<open>undefined\<close>.
  (Properties that a function writes on an inherited value before it throws are not
  part of the state.)
\<close>

datatype error = TypeError

type_synonym outcome = "(error \<times> Server \<times> emit list) + (Server \<times> emit list)"

definition stateOf :: "outcome \<Rightarrow> Server" where
  "stateOf r = (case r of Inl (e, s, es) \<Rightarrow> s | Inr (s, es) \<Rightarrow> s)"

definition eventsOf :: "outcome \<Rightarrow> emit list" where
  "eventsOf r = (case r of Inl (e, s, es) \<Rightarrow> es | Inr (s, es) \<Rightarrow> es)"

subsection \<open>nextTurn and startRound\<close>

text \<open>
  \<open>nextTurn\<close> on the game object. \<open>opts\<close> is the value that \<open>get3Words()\<close> returns in
  this call (three words drawn at random from the word bank); \<open>room\<close> is the function's
  \<open>roomId\<close> argument.
\<close>

definition nextTurnGame :: "string list \<Rightarrow> string \<Rightarrow> Game \<Rightarrow> Game \<times> emit list" where
  "nextTurnGame opts room game =
     (let g1 = game\<lparr>timer := None\<rparr>;
          g2 = g1\<lparr>drawerIndex := drawerIndex g1 + 1\<rparr>;
          g3 = (if drawerIndex g2 \<ge> int (length (players g2))
                then g2\<lparr>drawerIndex := 0, currentRound := currentRound g2 + 1\<rparr>
                else g2)
      in if currentRound g3 > maxRounds g3
         then (let g4 = g3\<lparr>status := ENDED\<rparr>
               in (g4, [(IoTo room, Clear)] @ broadcastState g4
                         @ [(IoTo room, GameEnded (players g4))]))
         else (let g4 = g3\<lparr>status := SELECTING, wordOptions := opts, currentWord := [],
                            timeLeft := 15,
                            players := map (\<lambda>p. p\<lparr>guessed := False\<rparr>) (players g3)\<rparr>
               in (g4\<lparr>timer := Some SelectionTimer\<rparr>,
                   [(IoTo room, Clear)] @ broadcastState g4)))"

text \<open>
  \<open>nextTurn(io, roomId)\<close>: nothing happens for a room that does not exist. On an inherited
  value the function sends \<open>clear\<close> and throws at \<open>game.players.length\<close>. A handler that
  holds the game object of the room and calls \<open>nextTurn(io, roomId)\<close> reaches the same
  object through \<open>games[roomId]\<close>; there the model applies \<open>nextTurnGame\<close> to the object.
\<close>

definition nextTurn :: "string list \<Rightarrow> string \<Rightarrow> Server \<Rightarrow> outcome" where
  "nextTurn opts room s =
     (case lookupGame s room of
        NoEntry \<Rightarrow> Inr (s, [])
      | InheritedEntry \<Rightarrow> Inl (TypeError, s, [(IoTo room, Clear)])
      | GameEntry game \<Rightarrow>
          (let (game', es) = nextTurnGame opts room game in Inr (putGame room game' s, es)))"

text \<open>
  \<open>startRound(io, roomId, word)\<close>, on the game object and on the registry. On an
  inherited value the function throws at \<open>game.players.forEach\<close>, before it sends
  anything.
\<close>

definition startRoundGame :: "string \<Rightarrow> string \<Rightarrow> Game \<Rightarrow> Game \<times> emit list" where
  "startRoundGame room word game =
     (let g1 = game\<lparr>status := DRAWING, currentWord := word, wordOptions := [],
                     timeLeft := drawTime game, timer := None\<rparr>
      in (g1\<lparr>timer := Some RoundTimer\<rparr>,
          broadcastState g1 @ [(IoTo room, SystemMessage DrawerSelected)]))"

definition startRound :: "string \<Rightarrow> string \<Rightarrow> Server \<Rightarrow> outcome" where
  "startRound room word s =
     (case lookupGame s room of
        NoEntry \<Rightarrow> Inr (s, [])
      | InheritedEntry \<Rightarrow> Inl (TypeError, s, [])
      | GameEntry game \<Rightarrow>
          (let (game', es) = startRoundGame room word game in Inr (putGame room game' s, es)))"

text \<open>
  Consecutive calls of \<open>nextTurn\<close> on one room, with the options drawn in each call (each
  call starts in the state that the one before has left), and the number of those calls
  that take the branch \<open>game.drawerIndex = 0; game.currentRound++\<close> (its condition, read
  before the increment of \<open>drawerIndex\<close>, is \<open>wrapsAround\<close>).
\<close>

fun nextTurns :: "string list list \<Rightarrow> string \<Rightarrow> Server \<Rightarrow> Server" where
  "nextTurns [] room s = s"
| "nextTurns (opts # rest) room s = nextTurns rest room (stateOf (nextTurn opts room s))"

definition wrapsAround :: "Game \<Rightarrow> bool" where
  "wrapsAround game = (drawerIndex game + 1 \<ge> int (length (players game)))"

fun countWraps :: "string list list \<Rightarrow> string \<Rightarrow> Server \<Rightarrow> nat" where
  "countWraps [] room s = 0"
| "countWraps (opts # rest) room s =
     (case games s room of
        None \<Rightarrow> 0
      | Some game \<Rightarrow> if wrapsAround game then 1 else 0)
     + countWraps rest room (stateOf (nextTurn opts room s))"

subsection \<open>handlePlayerRemove\<close>

text \<open>\<open>xs.splice(i, 1)\<close>\<close>

definition removeAt :: "nat \<Rightarrow> 'a list \<Rightarrow> 'a list" where
  "removeAt i xs = take i xs @ drop (Suc i) xs"

text \<open>
  The branch "Game Continues" of \<open>handlePlayerRemove\<close>, on the game object after the
  removal; it is entered with a player list that is not empty. \<open>if (drawerId)\<close> fails for
  \<open>undefined\<close> and for the empty string.
\<close>

definition gameContinues ::
  "string list \<Rightarrow> string \<Rightarrow> Player \<Rightarrow> bool \<Rightarrow> bool \<Rightarrow> Game \<Rightarrow> Game \<times> emit list" where
  "gameContinues opts room player wasDrawer wasHost game =
     (let (g1, e1) =
            (if wasHost
             then (game\<lparr>hostId := pid (hd (players game))\<rparr>,
                   [(IoTo room, SystemMessage (NowHost (name (hd (players game)))))])
             else (game, []))
      in if wasDrawer \<and> status g1 = DRAWING
         then (let (g2, e2) = nextTurnGame opts room (g1\<lparr>drawerIndex := drawerIndex g1 - 1\<rparr>)
               in (g2, e1 @ [(IoTo room, SystemMessage DrawerDisconnected)] @ e2))
         else (let (g2, e2) =
                     (if status g1 = DRAWING
                      then (case drawerId g1 of
                              None \<Rightarrow> nextTurnGame opts room g1
                            | Some d \<Rightarrow>
                                if d = [] then nextTurnGame opts room g1
                                else (let guessers = filter (\<lambda>p. pid p \<noteq> d) (players g1)
                                      in if length guessers > 0 \<and> list_all guessed guessers
                                         then (let (g, e) = nextTurnGame opts room g1
                                               in (g, [(IoTo room, SystemMessage EveryoneGuessed)] @ e))
                                         else (g1, [])))
                      else (g1, []))
               in (g2, e1 @ e2 @ broadcastState g2
                        @ [(IoTo room, SystemMessage (PlayerLeft (name player)))])))"



text \<open>
  \<open>handlePlayerRemove(io, roomId, playerId)\<close>. On an inherited value it throws at
  \<open>game.players.findIndex\<close>.
\<close>

definition handlePlayerRemove ::
  "string list \<Rightarrow> string \<Rightarrow> string \<Rightarrow> Server \<Rightarrow> outcome" where
  "handlePlayerRemove opts room playerId s =
     (case lookupGame s room of
        NoEntry \<Rightarrow> Inr (s, [])
      | InheritedEntry \<Rightarrow> Inl (TypeError, s, [])
      | GameEntry game \<Rightarrow>
          (let playerIndex = findIndex (\<lambda>p. pid p = playerId) (players game)
           in if playerIndex = - 1 then Inr (s, [])
              else
                (let player = players game ! nat playerIndex;
                     wasDrawer = (playerIndex = drawerIndex game);
                     wasHost = (hostId game = playerId);
                     g1 = game\<lparr>players := removeAt (nat playerIndex) (players game)\<rparr>;
                     g2 = (if playerIndex < drawerIndex g1
                           then g1\<lparr>drawerIndex := drawerIndex g1 - 1\<rparr>
                           else g1)
                 in if length (players g2) = 0
                    then Inr (s\<lparr>games := (games s)(room := None)\<rparr>, [])
                    else if status g2 \<noteq> LOBBY \<and> length (players g2) < 2
                    then (let winner = (hd (players g2))\<lparr>score := score (hd (players g2)) + 100\<rparr>;
                              g3 = g2\<lparr>timer := None, status := ENDED,
                                      players := (players g2)[0 := winner],
                                      hostId := pid winner\<rparr>
                          in Inr (putGame room g3 s,
                                  [(IoTo room, GameUpdate (getPublicState g3 (pid winner))),
                                   (IoTo room, SystemMessage EveryoneLeft),
                                   (IoTo room, GameEnded (players g3))]))
                    else (let (g3, es) = gameContinues opts room player wasDrawer wasHost g2
                          in Inr (putGame room g3 s, es)))))"

subsection \<open>The handlers of a connection\<close>

text \<open>
  The optional \<open>config\<close> of \<open>join-room\<close> and \<open>start-game\<close>. \<open>v || d\<close> takes \<open>d\<close> when
  the number \<open>v\<close> is missing or zero.
\<close>

record Config =
  rounds :: "int option"
  configDrawTime :: "int option"

definition orDefault :: "int option \<Rightarrow> int \<Rightarrow> int" where
  "orDefault v d = (case v of None \<Rightarrow> d | Some n \<Rightarrow> if n = 0 then d else n)"

text \<open>Stands for the emoji that is the default avatar in the source.\<close>

definition defaultAvatar :: string where
  "defaultAvatar = ''artist''"

text \<open>
  The second half of the \<open>join-room\<close> handler: the player is found by connection id,
  then by name, and updated; or a new player is pushed. An empty \<open>av\<close> is a missing
  avatar.
\<close>

definition addOrUpdatePlayer ::
  "string \<Rightarrow> string \<Rightarrow> string \<Rightarrow> string \<Rightarrow> Game \<Rightarrow> Game \<times> emit list" where
  "addOrUpdatePlayer sid room username av game =
     (let byId = findIndex (\<lambda>p. pid p = sid) (players game);
          existingInd = (if byId = - 1
                         then findIndex (\<lambda>p. name p = username) (players game)
                         else byId);
          (g1, e1) =
            (if existingInd \<noteq> - 1
             then (let p = players game ! nat existingInd;
                       oldId = pid p;
                       p' = p\<lparr>disconnectTimeout := False, name := username, pid := sid,
                               disconnected := False,
                               avatar := (if av \<noteq> [] then av else avatar p)\<rparr>
                   in (game\<lparr>players := (players game)[nat existingInd := p'],
                             hostId := (if hostId game = oldId then sid else hostId game)\<rparr>,
                       [(SocketEmit sid, SystemMessage WelcomeBack)]))
             else (game\<lparr>players := players game @
                            [\<lparr>pid = sid, name = username,
                              avatar = (if av = [] then defaultAvatar else av),
                              score = 0, guessed = False, disconnected = False,
                              disconnectTimeout = False\<rparr>]\<rparr>,
                   []))
      in (g1, e1 @ [(IoTo room, GameUpdate (getPublicState g1 sid))] @ broadcastState g1))"

definition newGame :: "string \<Rightarrow> string \<Rightarrow> Config option \<Rightarrow> Game" where
  "newGame sid room config =
     \<lparr>roomId = room, status = LOBBY, players = [], drawerIndex = 0, currentWord = [],
      wordOptions = [],
      maxRounds = orDefault (Option.bind config rounds) 3,
      currentRound = 1,
      drawTime = orDefault (Option.bind config configDrawTime) 60,
      timeLeft = 0, timer = None, hostId = sid\<rparr>"

text \<open>
  \<open>socket.on('join-room', ({ roomId, username, config, avatar }) => ...)\<close> on the
  connection \<open>sid\<close>. \<open>socket.join(roomId)\<close> is the first statement of the handler. An
  inherited value passes \<open>if (!game)\<close>, so no room is created, and the handler throws at
  \<open>game.players.findIndex\<close>.
\<close>

definition joinRoom ::
  "string \<Rightarrow> string \<Rightarrow> string \<Rightarrow> Config option \<Rightarrow> string \<Rightarrow> Server \<Rightarrow> outcome" where
  "joinRoom sid room username config av s =
     (let s1 = s\<lparr>joined := (sid, room) # joined s\<rparr>
      in case lookupGame s1 room of
           NoEntry \<Rightarrow>
             if config = None then Inr (s1, [(SocketEmit sid, JoinError)])
             else (let (g, es) = addOrUpdatePlayer sid room username av (newGame sid room config)
                   in Inr (putGame room g s1, es))
         | InheritedEntry \<Rightarrow> Inl (TypeError, s1, [])
         | GameEntry game \<Rightarrow>
             (let (g, es) = addOrUpdatePlayer sid room username av game
              in Inr (putGame room g s1, es)))"

text \<open>
  \<open>socket.on('start-game', ({ roomId, config }) => ...)\<close>. On an inherited value it
  throws at \<open>game.players.length\<close>.
\<close>

definition startGame ::
  "string list \<Rightarrow> string \<Rightarrow> string \<Rightarrow> Config option \<Rightarrow> Server \<Rightarrow> outcome" where
  "startGame opts sid room config s =
     (case lookupGame s room of
        NoEntry \<Rightarrow> Inr (s, [])
      | InheritedEntry \<Rightarrow> Inl (TypeError, s, [])
      | GameEntry game \<Rightarrow>
          if length (players game) < 2
          then Inr (s, [(SocketEmit sid, SystemMessage NeedPlayers)])
          else (let g1 = game\<lparr>maxRounds := orDefault (Option.bind config rounds) (maxRounds game),
                              drawTime := orDefault (Option.bind config configDrawTime) (drawTime game),
                              currentRound := 1,
                              drawerIndex := - 1,
                              players := map (\<lambda>p. p\<lparr>score := 0, guessed := False\<rparr>) (players game)\<rparr>
                in nextTurn opts room (putGame room g1 s)))"

text \<open>
  \<open>socket.on('select-word', ({ roomId, word }) => ...)\<close>. On an inherited value it
  throws at \<open>game.players[game.drawerIndex]\<close>.
\<close>

definition selectWord :: "string \<Rightarrow> string \<Rightarrow> string \<Rightarrow> Server \<Rightarrow> outcome" where
  "selectWord sid room word s =
     (case lookupGame s room of
        NoEntry \<Rightarrow> Inr (s, [])
      | InheritedEntry \<Rightarrow> Inl (TypeError, s, [])
      | GameEntry game \<Rightarrow>
          if drawerId game = Some sid then startRound room word s else Inr (s, []))"

subsection \<open>The chat-message handler\<close>

text \<open>
  \<open>toLowerCase\<close> and \<open>trim\<close> on code units below 256. The capital letters are A to Z,
  U+00C0 to U+00D6 and U+00D8 to U+00DE; the small letter of each is 32 above it. White
  space is tab, line feed, vertical tab, form feed, carriage return, space and the
  no-break space U+00A0.
\<close>

definition capitals :: string where
  "capitals = ''ABCDEFGHIJKLMNOPQRSTUVWXYZ'' @
     [CHR 0xC0, CHR 0xC1, CHR 0xC2, CHR 0xC3, CHR 0xC4, CHR 0xC5, CHR 0xC6, CHR 0xC7,
      CHR 0xC8, CHR 0xC9, CHR 0xCA, CHR 0xCB, CHR 0xCC, CHR 0xCD, CHR 0xCE, CHR 0xCF,
      CHR 0xD0, CHR 0xD1, CHR 0xD2, CHR 0xD3, CHR 0xD4, CHR 0xD5, CHR 0xD6,
      CHR 0xD8, CHR 0xD9, CHR 0xDA, CHR 0xDB, CHR 0xDC, CHR 0xDD, CHR 0xDE]"

definition smalls :: string where
  "smalls = ''abcdefghijklmnopqrstuvwxyz'' @
     [CHR 0xE0, CHR 0xE1, CHR 0xE2, CHR 0xE3, CHR 0xE4, CHR 0xE5, CHR 0xE6, CHR 0xE7,
      CHR 0xE8, CHR 0xE9, CHR 0xEA, CHR 0xEB, CHR 0xEC, CHR 0xED, CHR 0xEE, CHR 0xEF,
      CHR 0xF0, CHR 0xF1, CHR 0xF2, CHR 0xF3, CHR 0xF4, CHR 0xF5, CHR 0xF6,
      CHR 0xF8, CHR 0xF9, CHR 0xFA, CHR 0xFB, CHR 0xFC, CHR 0xFD, CHR 0xFE]"

definition toLowerChar :: "char \<Rightarrow> char" where
  "toLowerChar c =
     (case map_of (zip capitals smalls) c of
        None \<Rightarrow> c
      | Some l \<Rightarrow> l)"

definition toLowerCase :: "string \<Rightarrow> string" where
  "toLowerCase w = map toLowerChar w"

definition whiteSpace :: "char \<Rightarrow> bool" where
  "whiteSpace c =
     (c = CHR 0x09 \<or> c = CHR 0x0A \<or> c = CHR 0x0B \<or> c = CHR 0x0C \<or> c = CHR 0x0D \<or> c = CHR '' ''
      \<or> c = CHR 0xA0)"

definition trim :: "string \<Rightarrow> string" where
  "trim t = rev (dropWhile whiteSpace (rev (dropWhile whiteSpace t)))"

text \<open>
  \<open>Math.max(10, Math.ceil(game.timeLeft / game.drawTime * 500))\<close>, in exact arithmetic.
  The quotient is not a number of this model when \<open>drawTime\<close> is zero; the handlers
  never store a zero there (\<open>config?.drawTime || 60\<close>).
\<close>

definition guessPoints :: "int \<Rightarrow> int \<Rightarrow> int" where
  "guessPoints t d = max 10 (ceiling (rat_of_int t / rat_of_int d * 500))"

text \<open>
  The body of the innermost \<open>if\<close> of the handler: the connection \<open>sid\<close>, the player at
  index \<open>i\<close>, has guessed the word. \<open>drawer\<close> is \<open>game.players[game.drawerIndex]\<close>.
\<close>

definition correctGuess ::
  "string list \<Rightarrow> string \<Rightarrow> ChatData \<Rightarrow> nat \<Rightarrow> Game \<Rightarrow> Game \<times> emit list" where
  "correctGuess opts sid data i game =
     (let room = chatRoomId data;
          player = players game ! i;
          points = guessPoints (timeLeft game) (drawTime game);
          ps1 = (players game)[i := player\<lparr>guessed := True, score := score player + points\<rparr>];
          d = nat (drawerIndex game);
          ps2 = ps1[d := (ps1 ! d)\<lparr>score := score (ps1 ! d) + 50\<rparr>];
          drawer = ps2 ! d;
          g1 = game\<lparr>players := ps2\<rparr>;
          e1 = [(SocketTo sid room, SystemMessage (GuessedWord (chatUser data))),
                (SocketEmit sid, SystemMessage (YouGuessed points)),
                (IoTo room, GameUpdate (getPublicState g1 sid))] @ broadcastState g1;
          guessers = filter (\<lambda>p. pid p \<noteq> pid drawer) (players g1)
      in if list_all guessed guessers
         then (let (g2, e2) = nextTurnGame opts room g1
               in (g2, e1 @ [(IoTo room, SystemMessage EveryoneGuessed)] @ e2))
         else (g1, e1))"

text \<open>
  \<open>socket.on('chat-message', (data) => ...)\<close> on the connection \<open>sid\<close>. The player is the
  first one of the list with the connection's id (\<open>find\<close>), here by its index.
  \<open>game.players[game.drawerIndex].id\<close> has no \<open>?.\<close>: it throws a TypeError when
  \<open>drawerIndex\<close> is outside the list. An inherited value has no \<open>status\<close>, so the message
  is echoed as for a room that does not exist.
\<close>

definition chatMessage ::
  "string list \<Rightarrow> string \<Rightarrow> ChatData \<Rightarrow> Server \<Rightarrow> outcome" where
  "chatMessage opts sid data s =
     (let room = chatRoomId data;
          echo = Inr (s, [(IoTo room, ChatMessage data)])
      in case lookupGame s room of
           NoEntry \<Rightarrow> echo
         | InheritedEntry \<Rightarrow> echo
         | GameEntry game \<Rightarrow>
             if status game = DRAWING
                \<and> toLowerCase (trim (chatText data)) = toLowerCase (currentWord game)
             then (let i = findIndex (\<lambda>p. pid p = sid) (players game)
                   in if i = - 1 then echo
                      else if guessed (players game ! nat i) then echo
                      else (case elemAt (players game) (drawerIndex game) of
                              None \<Rightarrow> Inl (TypeError, s, [])
                            | Some drawer \<Rightarrow>
                                if pid (players game ! nat i) = pid drawer then echo
                                else (let (g, es) = correctGuess opts sid data (nat i) game
                                      in Inr (putGame room g s, es))))
             else echo)"

subsection \<open>onConnection\<close>

text \<open>
  The messages that the clients of the repository send (index.tsx, Chat.tsx, Canvas.tsx),
  each with what it carries: \<open>join-room {roomId, username, config, avatar}\<close>,
  \<open>start-game {roomId, config}\<close>, \<open>select-word {roomId, word}\<close>, \<open>chat-message\<close>, the
  canvas events with their room id, \<open>voice-signal {target, signal}\<close> and
  \<open>voice-state-change {roomId, isMuted, isDeafened}\<close>. A signal is a string here; the
  server never looks into it.
\<close>

datatype message =
    MJoinRoom string string "Config option" string
  | MStartGame string "Config option"
  | MSelectWord string string
  | MChatMessage ChatData
  | MStroke stroke string
  | MClear string
  | MVoiceSignal string string
  | MVoiceStateChange string bool bool

fun eventName :: "message \<Rightarrow> string" where
  "eventName (MJoinRoom room username config av) = ''join-room''"
| "eventName (MStartGame room config) = ''start-game''"
| "eventName (MSelectWord room word) = ''select-word''"
| "eventName (MChatMessage data) = ''chat-message''"
| "eventName (MStroke Draw room) = ''draw''"
| "eventName (MStroke Fill room) = ''fill''"
| "eventName (MStroke Undo room) = ''undo''"
| "eventName (MStroke Redo room) = ''redo''"
| "eventName (MStroke EndDraw room) = ''end-draw''"
| "eventName (MClear room) = ''clear''"
| "eventName (MVoiceSignal target signal) = ''voice-signal''"
| "eventName (MVoiceStateChange room muted deafened) = ''voice-state-change''"

text \<open>
  The events for which \<open>onConnection\<close> registers a listener with \<open>socket.on\<close>, in the
  order of the source. (\<open>disconnect\<close> comes from the socket layer, not from a client.)
\<close>

definition listeners :: "string list" where
  "listeners = [''join-room'', ''start-game'', ''select-word'', ''draw'', ''fill'', ''clear'',
                ''undo'', ''redo'', ''end-draw'', ''chat-message'', ''disconnect'']"

text \<open>
  A message arriving on the connection \<open>sid\<close>: the socket layer calls the listener
  registered for the event; a message of an event without a listener is dropped. The
  canvas listeners pass the event on with \<open>socket.to(roomId).emit\<close>.
\<close>

fun onConnection :: "string list \<Rightarrow> string \<Rightarrow> message \<Rightarrow> Server \<Rightarrow> outcome" where
  "onConnection opts sid (MJoinRoom room username config av) s =
     joinRoom sid room username config av s"
| "onConnection opts sid (MStartGame room config) s = startGame opts sid room config s"
| "onConnection opts sid (MSelectWord room word) s = selectWord sid room word s"
| "onConnection opts sid (MChatMessage data) s = chatMessage opts sid data s"
| "onConnection opts sid (MStroke k room) s = Inr (s, [(SocketTo sid room, Stroke k)])"
| "onConnection opts sid (MClear room) s = Inr (s, [(SocketTo sid room, Clear)])"
| "onConnection opts sid (MVoiceSignal target signal) s = Inr (s, [])"
| "onConnection opts sid (MVoiceStateChange room muted deafened) s = Inr (s, [])"

section \<open>Voice chat: the client (src/components/Canvas.tsx)\<close>





section \<open>Example rooms\<close>

definition mkPlayer :: "string \<Rightarrow> int \<Rightarrow> bool \<Rightarrow> Player" where
  "mkPlayer i sc gu =
     \<lparr>pid = i, name = i, avatar = defaultAvatar, score = sc, guessed = gu,
      disconnected = False, disconnectTimeout = False\<rparr>"

text \<open>
  Room r1 in the middle of a round: A draws "cat", B and C have not guessed, 30 of 60
  seconds are left.
\<close>

definition drawingGame :: Game where
  "drawingGame =
     \<lparr>roomId = ''r1'', status = DRAWING,
      players = [mkPlayer ''A'' 0 False, mkPlayer ''B'' 0 False, mkPlayer ''C'' 0 False],
      drawerIndex = 0, currentWord = ''cat'', wordOptions = [], maxRounds = 3,
      currentRound = 1, drawTime = 60, timeLeft = 30, timer = Some RoundTimer,
      hostId = ''A''\<rparr>"

definition drawingServer :: Server where
  "drawingServer =
     \<lparr>games = [''r1'' \<mapsto> drawingGame],
      joined = [(''C'', ''r1''), (''B'', ''r1''), (''A'', ''r1'')]\<rparr>"

text \<open>The same room while A chooses among three words.\<close>

definition selectingGame :: Game where
  "selectingGame =
     drawingGame\<lparr>status := SELECTING, currentWord := [],
                 wordOptions := [''dog'', ''cat'', ''owl''], timeLeft := 15,
                 timer := Some SelectionTimer\<rparr>"

definition selectingServer :: Server where
  "selectingServer = drawingServer\<lparr>games := [''r1'' \<mapsto> selectingGame]\<rparr>"

text \<open>The same round after B has guessed.\<close>

definition guessedGame :: Game where
  "guessedGame =
     drawingGame\<lparr>players := [mkPlayer ''A'' 50 False, mkPlayer ''B'' 250 True,
                             mkPlayer ''C'' 0 False]\<rparr>"

definition guessedServer :: Server where
  "guessedServer = drawingServer\<lparr>games := [''r1'' \<mapsto> guessedGame]\<rparr>"

text \<open>The same room while C, the last of the list, chooses.\<close>

definition lastDrawsGame :: Game where
  "lastDrawsGame = selectingGame\<lparr>drawerIndex := 2\<rparr>"

definition lastDrawsServer :: Server where
  "lastDrawsServer = drawingServer\<lparr>games := [''r1'' \<mapsto> lastDrawsGame]\<rparr>"

text \<open>Room r1 in the lobby with the three players.\<close>

definition lobbyGame :: Game where
  "lobbyGame =
     drawingGame\<lparr>status := LOBBY, currentWord := [], timeLeft := 0, timer := None\<rparr>"

definition lobbyServer :: Server where
  "lobbyServer = drawingServer\<lparr>games := [''r1'' \<mapsto> lobbyGame]\<rparr>"

text \<open>
  That room as \<open>start-game\<close> leaves it at its call of \<open>nextTurn\<close>: round 1 and
  \<open>drawerIndex = -1\<close>.
\<close>

definition startedGame :: Game where
  "startedGame =
     drawingGame\<lparr>status := LOBBY, drawerIndex := - 1, currentWord := [], timeLeft := 0,
                 timer := None\<rparr>"

definition startedServer :: Server where
  "startedServer = drawingServer\<lparr>games := [''r1'' \<mapsto> startedGame]\<rparr>"

text \<open>Room r1 in the lobby with A alone.\<close>

definition lonelyGame :: Game where
  "lonelyGame =
     drawingGame\<lparr>status := LOBBY, players := [mkPlayer ''A'' 0 False], currentWord := [],
                 timeLeft := 0, timer := None\<rparr>"

definition lonelyServer :: Server where
  "lonelyServer = \<lparr>games = [''r1'' \<mapsto> lonelyGame], joined = [(''A'', ''r1'')]\<rparr>"

text \<open>Room r1 in the middle of a round with two players: A draws, B guesses.\<close>

definition duelGame :: Game where
  "duelGame = drawingGame\<lparr>players := [mkPlayer ''A'' 0 False, mkPlayer ''B'' 0 False]\<rparr>"

definition duelServer :: Server where
  "duelServer = \<lparr>games = [''r1'' \<mapsto> duelGame], joined = [(''B'', ''r1''), (''A'', ''r1'')]\<rparr>"

text \<open>No room at all, and nobody in any.\<close>

definition emptyServer :: Server where
  "emptyServer = \<lparr>games = Map.empty, joined = []\<rparr>"

section \<open>The spec's masking rule\<close>

text \<open>
  The rule as the spec words it, for comparison with \<open>maskWord\<close>: "masked
  letter-for-letter (underscores, spacing preserved)": one underscore for each
  character, a space staying a space.
\<close>

definition maskLetterForLetter :: "string \<Rightarrow> string" where
  "maskLetterForLetter w = map (\<lambda>c. if c = CHR '' '' then CHR '' '' else CHR ''_'') w"

section \<open>Properties\<close>

lemmas example_defs =
  drawingServer_def drawingGame_def selectingServer_def selectingGame_def emptyServer_def
  guessedServer_def guessedGame_def lastDrawsServer_def lastDrawsGame_def lobbyServer_def lobbyGame_def startedServer_def
  startedGame_def lonelyServer_def lonelyGame_def duelServer_def duelGame_def mkPlayer_def

lemmas registry_defs = lookupGame_def inheritedKey_def stateOf_def eventsOf_def

lemmas text_defs =
  toLowerCase_def trim_def toLowerChar_def capitals_def smalls_def whiteSpace_def

lemma lookupGame_Some: "games s room = Some game \<Longrightarrow> lookupGame s room = GameEntry game"
  by (simp add: lookupGame_def)

lemmas view_defs = getPublicState_def drawerId_def elemAt_def hasGuessed_def broadcastState_def

subsection \<open>The masked word\<close>

lemma maskWord_plain:
  "\<not> list_ex lineTerminator w \<Longrightarrow> maskWord w = concat (replicate (length w) ''_ '')"
  by (induction w) (simp_all add: maskWord_def)

text \<open>
  Claim C5, as amended. During DRAWING, the view of a player who is not the drawer and
  has not guessed holds, for a word without line terminators, the two characters
  underscore, space once for every character of the word, spaces included: it shows the
  length of the word and nothing else. A space of the word does not stay a space.
\<close>

theorem masked_view_every_character:
  assumes "status game = DRAWING"
    and "Some playerId \<noteq> drawerId game"
    and "\<not> hasGuessed game playerId"
    and "\<not> list_ex lineTerminator (currentWord game)"
  shows "currentWord (getPublicState game playerId)
           = concat (replicate (length (currentWord game)) ''_ '')"
  using assms by (simp add: getPublicState_def maskWord_plain)

theorem masked_view_every_character_witness:
  "status (drawingGame\<lparr>currentWord := ''ice cream''\<rparr>) = DRAWING
   \<and> Some ''B'' \<noteq> drawerId (drawingGame\<lparr>currentWord := ''ice cream''\<rparr>)
   \<and> \<not> hasGuessed (drawingGame\<lparr>currentWord := ''ice cream''\<rparr>) ''B''
   \<and> \<not> list_ex lineTerminator ''ice cream''
   \<and> currentWord (getPublicState (drawingGame\<lparr>currentWord := ''ice cream''\<rparr>) ''B'')
       = ''_ _ _ _ _ _ _ _ _ ''"
  using masked_view_every_character [of "drawingGame\<lparr>currentWord := ''ice cream''\<rparr>" "''B''"]
  by (simp add: drawingGame_def drawerId_def elemAt_def hasGuessed_def mkPlayer_def
      lineTerminator_def)

text \<open>
  Claim C5 as the spec states it fails for the word "ice cream": the view of B, a guesser
  who has not guessed, is not the letter-for-letter mask of the spec; where the space of
  the word stood there is an underscore; and the view is the one of the word
  "icescream", which has no space.
\<close>

theorem masked_view_spacing_counterexample:
  "status (drawingGame\<lparr>currentWord := ''ice cream''\<rparr>) = DRAWING
   \<and> Some ''B'' \<noteq> drawerId (drawingGame\<lparr>currentWord := ''ice cream''\<rparr>)
   \<and> \<not> hasGuessed (drawingGame\<lparr>currentWord := ''ice cream''\<rparr>) ''B''
   \<and> currentWord (getPublicState (drawingGame\<lparr>currentWord := ''ice cream''\<rparr>) ''B'')
       \<noteq> maskLetterForLetter ''ice cream''
   \<and> currentWord (getPublicState (drawingGame\<lparr>currentWord := ''ice cream''\<rparr>) ''B'') ! 6
       = CHR ''_''
   \<and> currentWord (getPublicState (drawingGame\<lparr>currentWord := ''ice cream''\<rparr>) ''B'')
       = currentWord (getPublicState (drawingGame\<lparr>currentWord := ''icescream''\<rparr>) ''B'')"
  by (simp add: getPublicState_def drawingGame_def drawerId_def elemAt_def hasGuessed_def
      mkPlayer_def maskWord_def lineTerminator_def maskLetterForLetter_def)

subsection \<open>Who receives the word\<close>

text \<open>
  Claim C1 at a failing input. In room r1 A draws "cat", B and C have not guessed, and
  the three connections are in the socket room r1. B sends the chat message "cat". Among
  the events of the handler is a \<open>game-update\<close> to the whole room r1 whose state has the
  word "cat" unmasked (the view computed for B, who has just guessed); C is in that room,
  and in the state of the game after the handler the phase is DRAWING, C is not the
  drawer and C has not guessed.
\<close>

theorem correct_guess_sends_word_to_room:
  "\<exists>s' es view g.
     chatMessage [''dog'', ''sun'', ''owl''] ''B''
         \<lparr>chatRoomId = ''r1'', chatUser = ''B'', chatText = ''cat''\<rparr> drawingServer
       = Inr (s', es)
     \<and> (IoTo ''r1'', GameUpdate view) \<in> set es
     \<and> currentWord view = ''cat''
     \<and> receives (joined s') (IoTo ''r1'') ''C''
     \<and> games s' ''r1'' = Some g
     \<and> status g = DRAWING
     \<and> currentWord g = ''cat''
     \<and> Some ''C'' \<noteq> drawerId g
     \<and> \<not> hasGuessed g ''C''"
  by (simp add: chatMessage_def correctGuess_def example_defs view_defs putGame_def
      registry_defs text_defs guessPoints_def inRoom_def maskWord_def lineTerminator_def
      Let_def)

subsection \<open>Joining a room that does not exist\<close>

text \<open>
  Claim C7 at a failing input. No room exists; the connection S sends \<open>join-room\<close> for
  r1 without a config. The handler sends \<open>join-error\<close> to S alone and creates no room,
  but S is now in the socket room r1: before the message an event sent to the room r1
  did not reach S, after it such an event does. So when A then creates the room r1, the
  \<open>game-update\<close> that the handler sends to the room reaches S, who is no player of it.
\<close>

theorem rejected_join_subscribes_sender:
  "joinRoom ''S'' ''r1'' ''eve'' None [] emptyServer
     = Inr (emptyServer\<lparr>joined := [(''S'', ''r1'')]\<rparr>, [(SocketEmit ''S'', JoinError)])
   \<and> \<not> receives (joined emptyServer) (IoTo ''r1'') ''S''
   \<and> receives (joined (stateOf (joinRoom ''S'' ''r1'' ''eve'' None [] emptyServer)))
         (IoTo ''r1'') ''S''
   \<and> (\<exists>s2 es view.
         joinRoom ''A'' ''r1'' ''ann'' (Some \<lparr>rounds = Some 3, configDrawTime = Some 60\<rparr>) []
             (stateOf (joinRoom ''S'' ''r1'' ''eve'' None [] emptyServer))
           = Inr (s2, es)
         \<and> (IoTo ''r1'', GameUpdate view) \<in> set es
         \<and> map pid (players view) = [''A'']
         \<and> receives (joined s2) (IoTo ''r1'') ''S'')"
  by (simp add: joinRoom_def addOrUpdatePlayer_def newGame_def putGame_def orDefault_def
      emptyServer_def inRoom_def view_defs registry_defs Let_def)

subsection \<open>Selecting a word\<close>

text \<open>
  Claim C10. In a room in SELECTING phase, \<open>select-word\<close> with any string \<open>w\<close> from the
  current drawer makes \<open>w\<close> the current word and DRAWING the phase, with the options
  cleared and the round timer started; \<open>w\<close> is not compared with the options offered.
\<close>

theorem select_word_any_word:
  assumes "games s room = Some game"
    and "status game = SELECTING"
    and "drawerId game = Some sid"
  shows "\<exists>s' es game'. selectWord sid room w s = Inr (s', es)
           \<and> games s' room = Some game'
           \<and> currentWord game' = w
           \<and> status game' = DRAWING
           \<and> wordOptions game' = []
           \<and> timeLeft game' = drawTime game
           \<and> timer game' = Some RoundTimer
           \<and> players game' = players game"
  using assms
  by (simp add: selectWord_def startRound_def startRoundGame_def putGame_def lookupGame_Some
      Let_def)

theorem select_word_any_word_witness:
  "games selectingServer ''r1'' = Some selectingGame
   \<and> status selectingGame = SELECTING
   \<and> drawerId selectingGame = Some ''A''
   \<and> ''zebra'' \<notin> set (wordOptions selectingGame)
   \<and> (\<exists>s' es game'. selectWord ''A'' ''r1'' ''zebra'' selectingServer = Inr (s', es)
           \<and> games s' ''r1'' = Some game'
           \<and> currentWord game' = ''zebra''
           \<and> status game' = DRAWING
           \<and> wordOptions game' = []
           \<and> timeLeft game' = drawTime selectingGame
           \<and> timer game' = Some RoundTimer
           \<and> players game' = players selectingGame)"
  using select_word_any_word [of selectingServer "''r1''" selectingGame "''A''" "''zebra''"]
  by (simp add: example_defs drawerId_def elemAt_def)

subsection \<open>The signalling relay\<close>

lemma no_listener_dropped:
  assumes "eventName m \<notin> set listeners"
  shows "onConnection opts sid m s = Inr (s, [])"
proof (cases m)
  case (MStroke k room)
  with assms show ?thesis by (cases k) (simp_all add: listeners_def)
qed (insert assms, simp_all add: listeners_def)

text \<open>
  Claim C4 at a failing input. The connection A sends \<open>voice-signal\<close> with the target B
  and an offer while both play in room r1. \<open>onConnection\<close> has no listener for the event:
  the message is dropped, the state is as before and no event is sent, so B, the
  connection named by the target, receives nothing. The same holds in every state, for
  every sender, target and signal.
\<close>

theorem voice_signal_not_forwarded:
  "eventName (MVoiceSignal ''B'' ''offer'') = ''voice-signal''
   \<and> ''voice-signal'' \<notin> set listeners
   \<and> onConnection [''dog'', ''sun'', ''owl''] ''A'' (MVoiceSignal ''B'' ''offer'') drawingServer
       = Inr (drawingServer, [])
   \<and> (\<forall>opts sid target signal s.
         onConnection opts sid (MVoiceSignal target signal) s = Inr (s, []))"
  by (simp add: listeners_def)

subsection \<open>Turns and rounds\<close>

lemma nextTurnGame_drawerIndex:
  "drawerIndex (fst (nextTurnGame opts room g))
     = (if drawerIndex g + 1 \<ge> int (length (players g)) then 0 else drawerIndex g + 1)"
  by (simp add: nextTurnGame_def Let_def)

lemma nextTurnGame_currentRound:
  "currentRound (fst (nextTurnGame opts room g))
     = (if drawerIndex g + 1 \<ge> int (length (players g)) then currentRound g + 1
        else currentRound g)"
  by (simp add: nextTurnGame_def Let_def)

lemma nextTurnGame_pids:
  "map pid (players (fst (nextTurnGame opts room g))) = map pid (players g)"
  by (simp add: nextTurnGame_def Let_def comp_def)

lemma nextTurnGame_length:
  "length (players (fst (nextTurnGame opts room g))) = length (players g)"
  using nextTurnGame_pids [of opts room g] by (metis length_map)

lemma nextTurn_games:
  "games s room = Some g \<Longrightarrow>
   games (stateOf (nextTurn opts room s)) room = Some (fst (nextTurnGame opts room g))"
  by (simp add: nextTurn_def putGame_def lookupGame_Some stateOf_def split_beta)

lemma nextTurns_rounds:
  assumes "games s room = Some g"
    and "0 \<le> drawerIndex g"
    and "drawerIndex g < int (length (players g))"
  shows "\<exists>g'. games (nextTurns os room s) room = Some g'
           \<and> map pid (players g') = map pid (players g)
           \<and> drawerIndex g' = (drawerIndex g + int (length os)) mod int (length (players g))
           \<and> currentRound g'
               = currentRound g + (drawerIndex g + int (length os)) div int (length (players g))
           \<and> int (countWraps os room s)
               = (drawerIndex g + int (length os)) div int (length (players g))"
  using assms
proof (induction os arbitrary: s g)
  case Nil
  then show ?case by simp
next
  case (Cons opts os)
  let ?n = "int (length (players g))"
  let ?g1 = "fst (nextTurnGame opts room g)"
  let ?s1 = "stateOf (nextTurn opts room s)"
  have g1: "games ?s1 room = Some ?g1"
    using Cons.prems(1) by (rule nextTurn_games)
  have len: "length (players ?g1) = length (players g)"
    by (rule nextTurnGame_length)
  have pids: "map pid (players ?g1) = map pid (players g)"
    by (rule nextTurnGame_pids)
  show ?case
  proof (cases "drawerIndex g + 1 \<ge> ?n")
    case True
    with Cons.prems have d: "drawerIndex g = ?n - 1" by simp
    have i1: "drawerIndex ?g1 = 0" and r1: "currentRound ?g1 = currentRound g + 1"
      using True by (simp_all add: nextTurnGame_drawerIndex nextTurnGame_currentRound)
    have pos: "0 < ?n" using Cons.prems(2,3) by linarith
    from Cons.IH [OF g1] i1 len pos
    obtain g' where g': "games (nextTurns os room ?s1) room = Some g'"
      "map pid (players g') = map pid (players ?g1)"
      "drawerIndex g' = int (length os) mod ?n"
      "currentRound g' = currentRound ?g1 + int (length os) div ?n"
      "int (countWraps os room ?s1) = int (length os) div ?n"
      by auto
    have e: "drawerIndex g + int (length (opts # os)) = int (length os) + ?n"
      using d by simp
    have m: "(int (length os) + ?n) mod ?n = int (length os) mod ?n" by simp
    have q: "(int (length os) + ?n) div ?n = int (length os) div ?n + 1"
      using pos by simp
    show ?thesis
      using g' pids r1 True Cons.prems(1)
      by (simp only: e m q) (simp add: wrapsAround_def)
  next
    case False
    have i1: "drawerIndex ?g1 = drawerIndex g + 1" and r1: "currentRound ?g1 = currentRound g"
      using False by (simp_all add: nextTurnGame_drawerIndex nextTurnGame_currentRound)
    have b: "0 \<le> drawerIndex ?g1" "drawerIndex ?g1 < int (length (players ?g1))"
      using False Cons.prems i1 len by simp_all
    from Cons.IH [OF g1 b] i1 len
    obtain g' where g': "games (nextTurns os room ?s1) room = Some g'"
      "map pid (players g') = map pid (players ?g1)"
      "drawerIndex g' = (drawerIndex g + 1 + int (length os)) mod ?n"
      "currentRound g' = currentRound ?g1 + (drawerIndex g + 1 + int (length os)) div ?n"
      "int (countWraps os room ?s1) = (drawerIndex g + 1 + int (length os)) div ?n"
      by auto
    have e: "drawerIndex g + int (length (opts # os)) = drawerIndex g + 1 + int (length os)"
      by simp
    show ?thesis
      using g' pids r1 False Cons.prems(1)
      by (simp only: e) (simp add: wrapsAround_def)
  qed
qed

text \<open>
  Claim C8, as amended. In a room whose \<open>drawerIndex\<close> is the index of a present player,
  \<open>n\<close> consecutive calls of \<open>nextTurn\<close>, \<open>n\<close> the number of players, keep the players,
  add one to \<open>currentRound\<close> and bring \<open>drawerIndex\<close> back to its value; one of the calls,
  and only one, resets \<open>drawerIndex\<close> to 0.
\<close>

theorem round_after_all_players:
  assumes "games s room = Some g"
    and "0 \<le> drawerIndex g"
    and "drawerIndex g < int (length (players g))"
    and "length os = length (players g)"
  shows "\<exists>g'. games (nextTurns os room s) room = Some g'
           \<and> map pid (players g') = map pid (players g)
           \<and> currentRound g' = currentRound g + 1
           \<and> drawerIndex g' = drawerIndex g
           \<and> countWraps os room s = 1"
proof -
  let ?n = "int (length (players g))"
  have pos: "?n \<noteq> 0"
    using assms(2,3) by linarith
  have m: "(drawerIndex g + ?n) mod ?n = drawerIndex g"
    using assms(2,3) by simp
  have "(drawerIndex g + ?n) div ?n = drawerIndex g div ?n + 1"
    using pos by (rule div_add_self2)
  then have q: "(drawerIndex g + ?n) div ?n = 1"
    using assms(2,3) by simp
  have m': "drawerIndex g mod ?n = drawerIndex g"
    using assms(2,3) by simp
  from nextTurns_rounds [OF assms(1-3), of os] show ?thesis
    by (auto simp add: assms(4) m m' q)
qed

theorem round_after_all_players_witness:
  "games drawingServer ''r1'' = Some drawingGame
   \<and> 0 \<le> drawerIndex drawingGame
   \<and> drawerIndex drawingGame < int (length (players drawingGame))
   \<and> length [[''dog'', ''sun'', ''owl''], [''bat'', ''fox'', ''tea''], [''pen'', ''mop'', ''zoo'']]
       = length (players drawingGame)
   \<and> (\<exists>g'. games (nextTurns [[''dog'', ''sun'', ''owl''], [''bat'', ''fox'', ''tea''],
                                [''pen'', ''mop'', ''zoo'']] ''r1'' drawingServer) ''r1'' = Some g'
           \<and> map pid (players g') = map pid (players drawingGame)
           \<and> currentRound g' = currentRound drawingGame + 1
           \<and> drawerIndex g' = drawerIndex drawingGame
           \<and> countWraps [[''dog'', ''sun'', ''owl''], [''bat'', ''fox'', ''tea''],
                          [''pen'', ''mop'', ''zoo'']] ''r1'' drawingServer = 1)"
  using round_after_all_players [of drawingServer "''r1''" drawingGame
      "[[''dog'', ''sun'', ''owl''], [''bat'', ''fox'', ''tea''], [''pen'', ''mop'', ''zoo'']]"]
  by (simp add: example_defs)

text \<open>
  Claim C8 as the spec states it fails in the state in which \<open>start-game\<close> calls
  \<open>nextTurn\<close>, where \<open>drawerIndex\<close> is -1 (the first conjunct: \<open>start-game\<close> in the lobby
  of r1 is \<open>nextTurn\<close> on that state): with three players, three calls lead to
  \<open>drawerIndex = 2\<close> without a reset to 0, and \<open>currentRound\<close> is what it was.
\<close>

theorem round_after_start_counterexample:
  "startGame [''dog'', ''sun'', ''owl''] ''A'' ''r1'' None lobbyServer
     = nextTurn [''dog'', ''sun'', ''owl''] ''r1'' startedServer
   \<and> games startedServer ''r1'' = Some startedGame
   \<and> players startedGame \<noteq> []
   \<and> length [[''dog'', ''sun'', ''owl''], [''bat'', ''fox'', ''tea''], [''pen'', ''mop'', ''zoo'']]
       = length (players startedGame)
   \<and> (\<exists>g'. games (nextTurns [[''dog'', ''sun'', ''owl''], [''bat'', ''fox'', ''tea''],
                                [''pen'', ''mop'', ''zoo'']] ''r1'' startedServer) ''r1'' = Some g'
           \<and> currentRound g' = currentRound startedGame
           \<and> currentRound g' \<noteq> currentRound startedGame + 1
           \<and> drawerIndex g' = 2)
   \<and> countWraps [[''dog'', ''sun'', ''owl''], [''bat'', ''fox'', ''tea''],
                  [''pen'', ''mop'', ''zoo'']] ''r1'' startedServer = 0"
  by (simp add: example_defs startGame_def nextTurn_def nextTurnGame_def putGame_def
      wrapsAround_def orDefault_def registry_defs Let_def)

subsection \<open>The initiator of a peer connection\<close>







subsection \<open>Starting a game\<close>

lemma nextTurn_putGame:
  "nextTurn opts room (putGame room g s)
     = Inr (putGame room (fst (nextTurnGame opts room g)) s, snd (nextTurnGame opts room g))"
  by (simp add: nextTurn_def putGame_def lookupGame_def split_beta)

lemma nextTurnGame_scores:
  "map score (players (fst (nextTurnGame opts room g))) = map score (players g)"
  by (simp add: nextTurnGame_def Let_def comp_def)

lemma nextTurnGame_status:
  "status (fst (nextTurnGame opts room g))
     = (if maxRounds g < (if drawerIndex g + 1 \<ge> int (length (players g))
                           then currentRound g + 1 else currentRound g)
        then ENDED else SELECTING)"
  by (simp add: nextTurnGame_def Let_def)

lemma nextTurnGame_maxRounds:
  "maxRounds (fst (nextTurnGame opts room g)) = maxRounds g"
  by (simp add: nextTurnGame_def Let_def)

lemma nextTurnGame_drawTime:
  "drawTime (fst (nextTurnGame opts room g)) = drawTime g"
  by (simp add: nextTurnGame_def Let_def)

text \<open>
  Claim C3, as amended. In an existing room, \<open>start-game\<close> is accepted when the room has
  at least two players, whatever its phase. With fewer than two players the state is
  unchanged and the only event is a notice to the sender. With two or more the handler
  takes \<open>maxRounds\<close> and \<open>drawTime\<close> from the config where it gives them, sets
  \<open>currentRound\<close> to 1, \<open>drawerIndex\<close> to -1, every score to 0 and every guessed flag to
  false, and calls \<open>nextTurn\<close> on that state; after it the first player draws in round 1,
  all scores are 0, and the phase is SELECTING (ENDED when \<open>maxRounds\<close> is below 1).
\<close>

theorem start_game_any_phase:
  assumes "games s room = Some game"
  shows "(length (players game) < 2 \<longrightarrow>
            startGame opts sid room config s
              = Inr (s, [(SocketEmit sid, SystemMessage NeedPlayers)]))
       \<and> (2 \<le> length (players game) \<longrightarrow>
            (\<exists>reset s' es game'.
               currentRound reset = 1
               \<and> drawerIndex reset = - 1
               \<and> players reset = map (\<lambda>p. p\<lparr>score := 0, guessed := False\<rparr>) (players game)
               \<and> startGame opts sid room config s = nextTurn opts room (putGame room reset s)
               \<and> startGame opts sid room config s = Inr (s', es)
               \<and> games s' room = Some game'
               \<and> currentRound game' = 1
               \<and> drawerIndex game' = 0
               \<and> map pid (players game') = map pid (players game)
               \<and> map score (players game') = map (\<lambda>p. 0) (players game)
               \<and> maxRounds game' = orDefault (Option.bind config rounds) (maxRounds game)
               \<and> drawTime game' = orDefault (Option.bind config configDrawTime) (drawTime game)
               \<and> status game' = (if maxRounds game' < 1 then ENDED else SELECTING)))"
proof (intro conjI impI)
  assume "length (players game) < 2"
  with assms show "startGame opts sid room config s
      = Inr (s, [(SocketEmit sid, SystemMessage NeedPlayers)])"
    by (simp add: startGame_def lookupGame_Some)
next
  assume two: "2 \<le> length (players game)"
  let ?reset = "game\<lparr>maxRounds := orDefault (Option.bind config rounds) (maxRounds game),
                       drawTime := orDefault (Option.bind config configDrawTime) (drawTime game),
                       currentRound := 1,
                       drawerIndex := - 1,
                       players := map (\<lambda>p. p\<lparr>score := 0, guessed := False\<rparr>) (players game)\<rparr>"
  let ?g' = "fst (nextTurnGame opts room ?reset)"
  let ?s' = "putGame room ?g' s"
  have run: "startGame opts sid room config s = nextTurn opts room (putGame room ?reset s)"
    using assms two by (simp add: startGame_def lookupGame_Some)
  have ret: "startGame opts sid room config s
      = Inr (?s', snd (nextTurnGame opts room ?reset))"
    unfolding run by (rule nextTurn_putGame)
  have st: "games ?s' room = Some ?g'"
    by (simp add: putGame_def)
  have nowrap: "\<not> drawerIndex ?reset + 1 \<ge> int (length (players ?reset))"
    using two by auto
  have r: "currentRound ?g' = 1"
    using nowrap by (simp add: nextTurnGame_currentRound)
  have d: "drawerIndex ?g' = 0"
    using nowrap by (simp add: nextTurnGame_drawerIndex)
  have p: "map pid (players ?g') = map pid (players game)"
    by (simp add: nextTurnGame_pids comp_def)
  have sc: "map score (players ?g') = map (\<lambda>p. 0) (players game)"
    by (simp add: nextTurnGame_scores comp_def)
  have stat: "status ?g' = (if maxRounds ?g' < 1 then ENDED else SELECTING)"
    using nowrap by (simp add: nextTurnGame_status nextTurnGame_maxRounds)
  have mr: "maxRounds ?g' = orDefault (Option.bind config rounds) (maxRounds game)"
    by (simp add: nextTurnGame_maxRounds)
  have dt: "drawTime ?g' = orDefault (Option.bind config configDrawTime) (drawTime game)"
    by (simp add: nextTurnGame_drawTime)
  show "\<exists>reset s' es game'.
               currentRound reset = 1
               \<and> drawerIndex reset = - 1
               \<and> players reset = map (\<lambda>p. p\<lparr>score := 0, guessed := False\<rparr>) (players game)
               \<and> startGame opts sid room config s = nextTurn opts room (putGame room reset s)
               \<and> startGame opts sid room config s = Inr (s', es)
               \<and> games s' room = Some game'
               \<and> currentRound game' = 1
               \<and> drawerIndex game' = 0
               \<and> map pid (players game') = map pid (players game)
               \<and> map score (players game') = map (\<lambda>p. 0) (players game)
               \<and> maxRounds game' = orDefault (Option.bind config rounds) (maxRounds game)
               \<and> drawTime game' = orDefault (Option.bind config configDrawTime) (drawTime game)
               \<and> status game' = (if maxRounds game' < 1 then ENDED else SELECTING)"
    using run ret st r d p sc stat mr dt
    by (intro exI [of _ ?reset] exI [of _ ?s'] exI [of _ "snd (nextTurnGame opts room ?reset)"]
        exI [of _ ?g']) simp
qed


theorem start_game_any_phase_witness:
  "games drawingServer ''r1'' = Some drawingGame
   \<and> 2 \<le> length (players drawingGame)
   \<and> status drawingGame = DRAWING
   \<and> (\<exists>s' es game'.
          startGame [''dog'', ''sun'', ''owl''] ''B'' ''r1'' None drawingServer = Inr (s', es)
          \<and> games s' ''r1'' = Some game'
          \<and> currentRound game' = 1
          \<and> drawerIndex game' = 0
          \<and> map pid (players game') = [''A'', ''B'', ''C'']
          \<and> map score (players game') = [0, 0, 0]
          \<and> status game' = SELECTING)
   \<and> games lonelyServer ''r1'' = Some lonelyGame
   \<and> length (players lonelyGame) < 2
   \<and> startGame [''dog'', ''sun'', ''owl''] ''A'' ''r1'' None lonelyServer
       = Inr (lonelyServer, [(SocketEmit ''A'', SystemMessage NeedPlayers)])"
  using start_game_any_phase [of drawingServer "''r1''" drawingGame "[''dog'', ''sun'', ''owl'']"
      "''B''" None]
    start_game_any_phase [of lonelyServer "''r1''" lonelyGame "[''dog'', ''sun'', ''owl'']"
      "''A''" None]
  by (simp add: example_defs) (auto simp add: orDefault_def)

text \<open>
  Claim C3 as the spec states it fails in room r1 during a round: the phase is DRAWING,
  not LOBBY, and \<open>start-game\<close> from B is accepted; the room's state changes, to SELECTING
  with new options and no word.
\<close>

theorem start_game_during_round_counterexample:
  "games drawingServer ''r1'' = Some drawingGame
   \<and> status drawingGame = DRAWING
   \<and> (\<exists>s' es game'.
          startGame [''dog'', ''sun'', ''owl''] ''B'' ''r1'' None drawingServer = Inr (s', es)
          \<and> games s' ''r1'' = Some game'
          \<and> games s' ''r1'' \<noteq> games drawingServer ''r1''
          \<and> status game' = SELECTING
          \<and> currentWord game' = []
          \<and> wordOptions game' = [''dog'', ''sun'', ''owl''])"
  by (simp add: startGame_def nextTurn_def nextTurnGame_def putGame_def example_defs Let_def
      orDefault_def registry_defs)

subsection \<open>A correct guess\<close>

lemma findIndex_first:
  "i < length xs \<Longrightarrow> P (xs ! i) \<Longrightarrow> (\<And>j. j < i \<Longrightarrow> \<not> P (xs ! j)) \<Longrightarrow> findIndex P xs = int i"
proof (induction xs arbitrary: i)
  case Nil
  then show ?case by simp
next
  case (Cons x xs)
  show ?case
  proof (cases i)
    case 0
    with Cons.prems show ?thesis by simp
  next
    case (Suc k)
    with Cons.prems have nx: "\<not> P x" by (metis nth_Cons_0 zero_less_Suc)
    have "findIndex P xs = int k"
    proof (rule Cons.IH)
      show "k < length xs" using Cons.prems(1) Suc by simp
      show "P (xs ! k)" using Cons.prems(2) Suc by simp
      show "\<not> P (xs ! j)" if "j < k" for j
        using Cons.prems(3) [of "Suc j"] that Suc by simp
    qed
    with nx Suc show ?thesis by (simp add: Let_def)
  qed
qed

lemma findIndex_pid:
  assumes "i < length ps" and "pid (ps ! i) = x" and "\<forall>j<i. pid (ps ! j) \<noteq> x"
  shows "findIndex (\<lambda>p. pid p = x) ps = int i"
  using assms by (intro findIndex_first) auto

lemma elemAt_in_range:
  "0 \<le> k \<Longrightarrow> k < int (length xs) \<Longrightarrow> elemAt xs k = Some (xs ! nat k)"
  by (simp add: elemAt_def)

lemma pids_update: "pid q = pid (ps ! k) \<Longrightarrow> map pid (ps[k := q]) = map pid ps"
  by (metis list_update_id map_update)

text \<open>
  The handler on a room that has a drawer. The room is in DRAWING phase; \<open>drawerIndex\<close>
  is the index \<open>d\<close> of the drawer; the sender \<open>sid\<close> is the player at index \<open>i\<close> (the first
  of the list with that id, the one that \<open>find\<close> returns), not the drawer, with a false
  guessed flag; the trimmed text is the current word up to case; \<open>drawTime\<close> is not zero.
  Then the handler returns, and in the state \<open>scored\<close> the sender has the flag set and
  \<open>max(10, ceil(timeLeft / drawTime * 500))\<close> points more, the drawer has 50 points more,
  and nothing else is changed. The room is left in \<open>scored\<close>, or, when every player but
  the drawer has guessed in \<open>scored\<close>, in the state that \<open>nextTurn\<close> makes of it. The
  same message once more from the same sender leaves the whole state as it is and is
  only echoed to the room.
\<close>

theorem correct_guess_scores:
  assumes room: "games s (chatRoomId data) = Some game"
    and drawing: "status game = DRAWING"
    and match: "toLowerCase (trim (chatText data)) = toLowerCase (currentWord game)"
    and i: "i < length (players game)" "pid (players game ! i) = sid"
      "\<forall>j<i. pid (players game ! j) \<noteq> sid"
    and fresh: "\<not> guessed (players game ! i)"
    and drawer: "0 \<le> drawerIndex game" "drawerIndex game < int (length (players game))"
      "d = nat (drawerIndex game)" "pid (players game ! d) \<noteq> sid"
    and time: "drawTime game \<noteq> 0"
    and points: "points = max 10 \<lceil>rat_of_int (timeLeft game) / rat_of_int (drawTime game) * 500\<rceil>"
    and scored: "scored = game\<lparr>players := (players game)
                    [i := (players game ! i)\<lparr>guessed := True,
                                               score := score (players game ! i) + points\<rparr>,
                     d := (players game ! d)\<lparr>score := score (players game ! d) + 50\<rparr>]\<rparr>"
  shows "\<exists>s' es. chatMessage opts sid data s = Inr (s', es)
           \<and> s' = (if list_all guessed
                         (filter (\<lambda>p. pid p \<noteq> pid (players game ! d)) (players scored))
                    then stateOf (nextTurn opts (chatRoomId data)
                                    (putGame (chatRoomId data) scored s))
                    else putGame (chatRoomId data) scored s)
           \<and> chatMessage opts' sid data s' = Inr (s', [(IoTo (chatRoomId data), ChatMessage data)])"
proof -
  let ?room = "chatRoomId data"
  let ?ps = "players game"
  have dlen: "d < length ?ps" using drawer by simp
  have id: "i \<noteq> d" using i(2) drawer(4) by auto
  have fi: "findIndex (\<lambda>p. pid p = sid) ?ps = int i"
    using i by (rule findIndex_pid)
  have el: "elemAt ?ps (drawerIndex game) = Some (?ps ! d)"
    using drawer by (simp add: elemAt_in_range)
  let ?all = "list_all guessed (filter (\<lambda>p. pid p \<noteq> pid (?ps ! d)) (players scored))"
  let ?g2 = "fst (nextTurnGame opts ?room scored)"
  let ?s' = "if ?all then putGame ?room ?g2 s else putGame ?room scored s"
  have cg: "fst (correctGuess opts sid data i game) = (if ?all then ?g2 else scored)"
    using id dlen i(1) drawer(3)
    by (simp add: correctGuess_def Let_def split_beta guessPoints_def points scored)
  have first: "\<exists>es. chatMessage opts sid data s = Inr (?s', es)"
    using drawing match fi fresh el i(2) drawer(4)
    by (simp add: chatMessage_def lookupGame_Some [OF room] Let_def split_beta cg)
  have nt: "stateOf (nextTurn opts ?room (putGame ?room scored s)) = putGame ?room ?g2 s"
    by (simp add: nextTurn_putGame stateOf_def)
  have second: "chatMessage opts' sid data ?s' = Inr (?s', [(IoTo ?room, ChatMessage data)])"
  proof (cases ?all)
    case True
    have "status ?g2 \<noteq> DRAWING" by (simp add: nextTurnGame_status)
    with True show ?thesis by (simp add: chatMessage_def putGame_def lookupGame_def Let_def)
  next
    case False
    have pids: "map pid (players scored) = map pid ?ps"
      by (simp add: scored pids_update id)
    have len: "length (players scored) = length ?ps"
      by (simp add: scored)
    have same: "pid (players scored ! j) = pid (?ps ! j)" if "j < length ?ps" for j
      using that len pids by (metis nth_map)
    have fi2: "findIndex (\<lambda>p. pid p = sid) (players scored) = int i"
    proof (rule findIndex_pid)
      show "i < length (players scored)" using i(1) len by simp
      show "pid (players scored ! i) = sid" using same [OF i(1)] i(2) by simp
      show "\<forall>j<i. pid (players scored ! j) \<noteq> sid"
        using same i(1,3) by simp
    qed
    have g: "guessed (players scored ! i)"
      using i dlen id by (simp add: scored)
    from False show ?thesis
      by (simp add: chatMessage_def putGame_def lookupGame_def fi2 g Let_def)
  qed
  show ?thesis
    using first second nt by auto
qed


theorem correct_guess_scores_witness:
  "games drawingServer ''r1'' = Some drawingGame
   \<and> status drawingGame = DRAWING
   \<and> toLowerCase (trim '' Cat '') = toLowerCase (currentWord drawingGame)
   \<and> 1 < length (players drawingGame)
   \<and> pid (players drawingGame ! 1) = ''B''
   \<and> pid (players drawingGame ! 0) \<noteq> ''B''
   \<and> \<not> guessed (players drawingGame ! 1)
   \<and> drawerIndex drawingGame = 0
   \<and> drawerIndex drawingGame < int (length (players drawingGame))
   \<and> drawTime drawingGame \<noteq> 0
   \<and> max 10 \<lceil>rat_of_int (timeLeft drawingGame) / rat_of_int (drawTime drawingGame) * 500\<rceil> = 250
   \<and> (\<exists>s' es.
         chatMessage [''dog'', ''sun'', ''owl''] ''B''
             \<lparr>chatRoomId = ''r1'', chatUser = ''B'', chatText = '' Cat ''\<rparr> drawingServer
           = Inr (s', es)
         \<and> s' = putGame ''r1''
                  (drawingGame\<lparr>players := [mkPlayer ''A'' 50 False, mkPlayer ''B'' 250 True,
                                            mkPlayer ''C'' 0 False]\<rparr>)
                  drawingServer
         \<and> chatMessage [''bat'', ''fox'', ''tea''] ''B''
               \<lparr>chatRoomId = ''r1'', chatUser = ''B'', chatText = '' Cat ''\<rparr> s'
             = Inr (s', [(IoTo ''r1'',
                          ChatMessage \<lparr>chatRoomId = ''r1'', chatUser = ''B'', chatText = '' Cat ''\<rparr>)]))"
  using correct_guess_scores [where s = drawingServer
      and data = "\<lparr>chatRoomId = ''r1'', chatUser = ''B'', chatText = '' Cat ''\<rparr>"
      and game = drawingGame and i = 1 and sid = "''B''" and d = 0 and points = 250
      and scored = "drawingGame\<lparr>players := (players drawingGame)
                    [1 := (players drawingGame ! 1)\<lparr>guessed := True,
                                               score := score (players drawingGame ! 1) + 250\<rparr>,
                     0 := (players drawingGame ! 0)\<lparr>score := score (players drawingGame ! 0) + 50\<rparr>]\<rparr>"
      and opts = "[''dog'', ''sun'', ''owl'']" and opts' = "[''bat'', ''fox'', ''tea'']"]
  by (simp add: example_defs text_defs putGame_def)

text \<open>
  Claim C2 at a failing input. In room r1 C, the last of the list, is choosing a word
  (SELECTING, \<open>drawerIndex = 2\<close>) when C is removed: A and B go on, \<open>drawerIndex\<close> stays 2
  and the phase SELECTING. When the selection timer runs out it calls \<open>startRound\<close> with
  the first option, "dog": the room is in DRAWING phase without a drawer. A, who has
  not guessed, sends the chat message "dog": the handler throws a TypeError at
  \<open>game.players[game.drawerIndex].id\<close>; no flag is set and no score changes.
\<close>

theorem guess_in_round_without_drawer_throws:
  "\<exists>s1 e1 s2 e2 g.
     handlePlayerRemove [''bat'', ''fox'', ''tea''] ''r1'' ''C'' lastDrawsServer = Inr (s1, e1)
     \<and> startRound ''r1'' (wordOptions lastDrawsGame ! 0) s1 = Inr (s2, e2)
     \<and> games s2 ''r1'' = Some g
     \<and> status g = DRAWING
     \<and> currentWord g = ''dog''
     \<and> players g = [mkPlayer ''A'' 0 False, mkPlayer ''B'' 0 False]
     \<and> drawerIndex g = 2
     \<and> drawerId g = None
     \<and> chatMessage [''pen'', ''mop'', ''zoo''] ''A''
           \<lparr>chatRoomId = ''r1'', chatUser = ''A'', chatText = ''dog''\<rparr> s2
         = Inl (TypeError, s2, [])"
  by (simp add: handlePlayerRemove_def gameContinues_def startRound_def startRoundGame_def
      chatMessage_def putGame_def removeAt_def example_defs view_defs registry_defs text_defs
      Let_def)

subsection \<open>Removing a player\<close>













end
